theory Spec2Isabelle
  imports Main
begin

section \<open>Python numbers: \<open>int(x * EXP_MULTIPLIER)\<close>\<close>

text \<open>
  \<^verbatim>\<open>character.py\<close> grows a stat with \<^verbatim>\<open>int(self._health * EXP_MULTIPLIER)\<close>, where the
  stat is a Python \<^verbatim>\<open>int\<close> (unbounded) and \<^verbatim>\<open>EXP_MULTIPLIER = 1.2\<close> is a binary64 float.
  Python evaluates this in three steps, each of which is modelled on exact integers:
  \<^enum> the int is converted to the nearest binary64 value, ties to even; the conversion
    raises \<^verbatim>\<open>OverflowError\<close> when the rounded magnitude reaches \<open>2^1024\<close>;
  \<^enum> the two floats are multiplied: the exact product is rounded to the nearest
    binary64 value, ties to even, and becomes infinity from \<open>2^1024\<close> on;
  \<^enum> \<^verbatim>\<open>int()\<close> truncates towards zero, and raises \<^verbatim>\<open>OverflowError\<close> on infinity.

  The float \<^verbatim>\<open>1.2\<close> is the binary64 value \<open>5404319552844595 / 2^52\<close>. Rounding and
  truncation are symmetric in the sign, so the model works on magnitudes.
\<close>

datatype py_error = OverflowError

text \<open>Number of binary digits of a natural number (Python's \<^verbatim>\<open>int.bit_length\<close>).\<close>

fun bit_length :: "nat \<Rightarrow> nat" where
  "bit_length n = (if n = 0 then 0 else Suc (bit_length (n div 2)))"

declare bit_length.simps [simp del]

text \<open>\<open>n / 2^s\<close> rounded to the nearest integer, ties to the even one.\<close>

definition round_half_even :: "nat \<Rightarrow> nat \<Rightarrow> nat" where
  "round_half_even n s =
     (let q = n div 2 ^ s; r = n mod 2 ^ s
      in if 2 ^ s < 2 * r \<or> (2 * r = 2 ^ s \<and> odd q) then q + 1 else q)"

text \<open>The nearest natural number with at most 53 significant bits, ties to even.\<close>

definition round53 :: "nat \<Rightarrow> nat" where
  "round53 n = (let s = bit_length n - 53 in round_half_even n s * 2 ^ s)"

text \<open>The significand of the float \<^verbatim>\<open>1.2\<close>: \<^verbatim>\<open>EXP_MULTIPLIER\<close> is \<open>EXP_MULTIPLIER_m / 2^52\<close>.\<close>

definition EXP_MULTIPLIER_m :: nat where
  "EXP_MULTIPLIER_m = 5404319552844595"

text \<open>\<^verbatim>\<open>int(n * EXP_MULTIPLIER)\<close> for a magnitude \<open>n\<close>.\<close>

definition scale_nat :: "nat \<Rightarrow> py_error + nat" where
  "scale_nat n =
     (let m = round53 n
      in if 2 ^ 1024 \<le> m then Inl OverflowError
         else let r = round53 (m * EXP_MULTIPLIER_m)
              in if 2 ^ 1076 \<le> r then Inl OverflowError
                 else Inr (r div 2 ^ 52))"

text \<open>\<^verbatim>\<open>int(x * EXP_MULTIPLIER)\<close> for a Python int \<open>x\<close>.\<close>

definition int_mul_EXP_MULTIPLIER :: "int \<Rightarrow> py_error + int" where
  "int_mul_EXP_MULTIPLIER x =
     (case scale_nat (nat \<bar>x\<bar>) of
        Inl e \<Rightarrow> Inl e
      | Inr y \<Rightarrow> Inr (if x < 0 then - int y else int y))"

text \<open>
  \<^verbatim>\<open>str(i)\<close> for a Python int, as the f-strings of the log messages format it. The
  conversion is total here: the interpreter's configurable limit on the number of digits
  of an int-to-string conversion (\<^verbatim>\<open>sys.set_int_max_str_digits\<close>) is not part of the model.
\<close>

fun str_nat :: "nat \<Rightarrow> string" where
  "str_nat n =
     (if n < 10 then [char_of (48 + n)]
      else str_nat (n div 10) @ [char_of (48 + n mod 10)])"

declare str_nat.simps [simp del]

definition str_int :: "int \<Rightarrow> string" where
  "str_int i = (if i < 0 then CHR ''-'' # str_nat (nat (- i)) else str_nat (nat i))"


section \<open>Items and the inventory (\<^verbatim>\<open>inventory.py\<close>)\<close>

record item =
  name :: string
  description :: string

record weapon = item +
  damage :: int

record armor = item +
  defense :: int

record consumable = item +
  effect :: string
  "value" :: int

text \<open>
  The inventory holds references to item objects. \<^verbatim>\<open>Item\<close> defines no \<^verbatim>\<open>__eq__\<close>, so
  \<^verbatim>\<open>item in self.items\<close> and \<^verbatim>\<open>self.items.remove(item)\<close> compare by object identity: an item
  is represented by its identity.
\<close>

type_synonym item_ref = nat

record inventory =
  max_size :: int
  items :: "item_ref list"
  equipped_weapon :: "item_ref option"
  equipped_armor :: "item_ref option"

definition Inventory :: "int \<Rightarrow> inventory" where
  "Inventory ms = \<lparr>max_size = ms, items = [], equipped_weapon = None, equipped_armor = None\<rparr>"

definition add_item :: "item_ref \<Rightarrow> inventory \<Rightarrow> bool \<times> inventory" where
  "add_item it iv =
     (if max_size iv \<le> int (length (items iv)) then (False, iv)
      else (True, iv\<lparr>items := items iv @ [it]\<rparr>))"

definition remove_item :: "item_ref \<Rightarrow> inventory \<Rightarrow> bool \<times> inventory" where
  "remove_item it iv =
     (if it \<in> set (items iv) then (True, iv\<lparr>items := remove1 it (items iv)\<rparr>)
      else (False, iv))"

definition equip_weapon :: "item_ref \<Rightarrow> inventory \<Rightarrow> bool \<times> inventory" where
  "equip_weapon w iv =
     (if w \<in> set (items iv) then (True, iv\<lparr>equipped_weapon := Some w\<rparr>)
      else (False, iv))"

definition equip_armor :: "item_ref \<Rightarrow> inventory \<Rightarrow> bool \<times> inventory" where
  "equip_armor a iv =
     (if a \<in> set (items iv) then (True, iv\<lparr>equipped_armor := Some a\<rparr>)
      else (False, iv))"

definition use_consumable :: "item_ref \<Rightarrow> inventory \<Rightarrow> bool \<times> inventory" where
  "use_consumable c iv =
     (if c \<in> set (items iv) then (True, iv\<lparr>items := remove1 c (items iv)\<rparr>)
      else (False, iv))"


section \<open>The logger (\<^verbatim>\<open>utils/logger.py\<close>)\<close>

text \<open>
  \<^verbatim>\<open>GameLogger.log\<close> prints the message when \<^verbatim>\<open>log_to_console\<close> is set and never appends to
  \<^verbatim>\<open>logs\<close>. Standard output is modelled as the list of lines printed so far; \<^verbatim>\<open>print\<close> itself
  does not fail.
\<close>

record game_logger =
  log_to_console :: bool
  logs :: "string list"

type_synonym console = "string list"

definition log :: "game_logger \<Rightarrow> string \<Rightarrow> console \<Rightarrow> console" where
  "log lg message out = (if log_to_console lg then out @ [message] else out)"

text \<open>
  A method called with \<^verbatim>\<open>logger: Optional[GameLogger]\<close> guards every use with
  \<^verbatim>\<open>if logger:\<close>; a \<^verbatim>\<open>GameLogger\<close> object is always truthy.
\<close>

definition log_opt :: "game_logger option \<Rightarrow> string \<Rightarrow> console \<Rightarrow> console" where
  "log_opt logger message out = (case logger of None \<Rightarrow> out | Some lg \<Rightarrow> log lg message out)"

text \<open>\<^verbatim>\<open>log_combat\<close> reads the wall clock; its reading is the parameter \<open>timestamp\<close>.\<close>

definition log_combat :: "game_logger \<Rightarrow> string \<Rightarrow> string \<Rightarrow> string \<Rightarrow> int \<Rightarrow> console \<Rightarrow> console" where
  "log_combat lg timestamp attacker_name defender_name dmg out =
     log lg (''['' @ timestamp @ ''] COMBAT LOG: '' @ attacker_name @ '' attacked ''
             @ defender_name @ '' for '' @ str_int dmg @ '' damage'') out"


section \<open>Characters (\<^verbatim>\<open>character.py\<close>)\<close>

definition LEVEL_UP_EXP :: int where
  "LEVEL_UP_EXP = 100"

record character =
  name :: string
  health :: int
  damage :: int
  weapon :: "weapon option"
  inventory :: inventory
  level :: int
  experience :: int

text \<open>\<^verbatim>\<open>Character.__init__\<close>; an absent or empty \<^verbatim>\<open>weapon_name\<close> is falsy and gives no weapon.\<close>

definition Character ::
  "string \<Rightarrow> int \<Rightarrow> int \<Rightarrow> string option \<Rightarrow> int \<Rightarrow> int \<Rightarrow> int \<Rightarrow> int \<Rightarrow> character" where
  "Character nm h d weapon_name weapon_damage lvl ex max_inventory_size =
     \<lparr>name = nm, health = h, damage = d,
      weapon = (case weapon_name of
                  None \<Rightarrow> None
                | Some wn \<Rightarrow>
                    if wn = [] then None
                    else Some \<lparr>item.name = wn, description = ''A '' @ wn @ '' weapon'',
                               weapon.damage = weapon_damage\<rparr>),
      inventory = Inventory max_inventory_size,
      level = lvl, experience = ex\<rparr>"

definition get_health :: "'a character_scheme \<Rightarrow> int" where
  "get_health c = health c"

definition set_health :: "int \<Rightarrow> 'a character_scheme \<Rightarrow> 'a character_scheme" where
  "set_health new_health c =
     (if new_health < 0 then c\<lparr>health := 0\<rparr> else c\<lparr>health := new_health\<rparr>)"

text \<open>
  The \<^verbatim>\<open>while\<close> loop of \<^verbatim>\<open>gain_experience\<close>. An \<^verbatim>\<open>OverflowError\<close> raised by a stat's growth
  leaves the loop with the fields assigned so far: the object keeps them.
\<close>

function level_up_loop ::
  "game_logger option \<Rightarrow> bool \<Rightarrow> 'a character_scheme \<Rightarrow> console
     \<Rightarrow> (py_error + bool) \<times> 'a character_scheme \<times> console" where
  "level_up_loop logger leveled_up c out =
     (if LEVEL_UP_EXP \<le> experience c then
        let remaining_exp = experience c - LEVEL_UP_EXP;
            c1 = c\<lparr>experience := remaining_exp, level := level c + 1\<rparr>
        in case int_mul_EXP_MULTIPLIER (health c1) of
             Inl e \<Rightarrow> (Inl e, c1, out)
           | Inr h \<Rightarrow>
               let c2 = c1\<lparr>health := h\<rparr>
               in case int_mul_EXP_MULTIPLIER (damage c2) of
                    Inl e \<Rightarrow> (Inl e, c2, out)
                  | Inr d \<Rightarrow>
                      let c3 = c2\<lparr>damage := d\<rparr>;
                          out1 = log_opt logger
                                   (name c3 @ '' leveled up to level '' @ str_int (level c3) @ ''!'') out;
                          out2 = log_opt logger
                                   (''New stats: Health='' @ str_int (get_health c3)
                                    @ '', Damage='' @ str_int (damage c3)) out1;
                          out3 = log_opt logger
                                   (''Remaining experience: '' @ str_int remaining_exp) out2
                      in level_up_loop logger True c3 out3
      else (Inr leveled_up, c, out))"
  by pat_completeness auto
termination
  by (relation "measure (\<lambda>(logger, leveled_up, c, out). nat (experience c))")
     (auto simp: LEVEL_UP_EXP_def)

declare level_up_loop.simps [simp del]

definition gain_experience ::
  "int \<Rightarrow> game_logger option \<Rightarrow> 'a character_scheme \<Rightarrow> console
     \<Rightarrow> (py_error + bool) \<times> 'a character_scheme \<times> console" where
  "gain_experience amount logger c out =
     (if amount < 0 then
        (Inr False, c,
         log_opt logger (name c @ '' attempted to gain negative experience. Ignoring.'') out)
      else
        case level_up_loop logger False (c\<lparr>experience := experience c + amount\<rparr>) out of
          (Inl e, c', out') \<Rightarrow> (Inl e, c', out')
        | (Inr leveled_up, c', out') \<Rightarrow>
            (Inr leveled_up, c',
             log_opt logger (name c' @ '' gained '' @ str_int amount
                             @ '' experience points. Total: '' @ str_int (experience c')) out'))"

text \<open>
  \<^verbatim>\<open>attack\<close> mutates two objects, which may be one and the same (\<^verbatim>\<open>c.attack(c)\<close>): the
  characters live in a store indexed by object identity, and the method takes the
  identities of \<^verbatim>\<open>self\<close> and \<^verbatim>\<open>enemy\<close>. A \<^verbatim>\<open>Weapon\<close> object is always truthy, so
  \<^verbatim>\<open>if self.weapon\<close> asks whether the attribute is \<^verbatim>\<open>None\<close>.
\<close>

type_synonym ref = nat

type_synonym 'a store = "ref \<Rightarrow> 'a character_scheme"

definition attack ::
  "ref \<Rightarrow> ref \<Rightarrow> game_logger option \<Rightarrow> string \<Rightarrow> 'a store \<Rightarrow> console
     \<Rightarrow> (py_error + int \<times> bool) \<times> 'a store \<times> console" where
  "attack self enemy logger timestamp st out =
     (let total_damage = damage (st self)
                         + (case weapon (st self) of None \<Rightarrow> 0 | Some w \<Rightarrow> weapon.damage w);
          current_health = get_health (st enemy);
          st1 = st(enemy := set_health (current_health - total_damage) (st enemy));
          enemy_defeated = (get_health (st1 enemy) \<le> 0);
          out1 = (case logger of
                    None \<Rightarrow> out
                  | Some lg \<Rightarrow>
                      log_combat lg timestamp (name (st1 self)) (name (st1 enemy)) total_damage out)
      in if enemy_defeated then
           let current_exp = experience (st1 self)
           in case gain_experience LEVEL_UP_EXP logger (st1 self) out1 of
                (Inl e, c', out2) \<Rightarrow> (Inl e, st1(self := c'), out2)
              | (Inr leveled_up, c', out2) \<Rightarrow>
                  let st2 = st1(self := c');
                      out3 = log_opt logger
                               (name (st2 self) @ '' defeated '' @ name (st2 enemy) @ '' and gained ''
                                @ str_int LEVEL_UP_EXP @ '' experience points!'') out2;
                      out4 = log_opt logger
                               (''Total experience: '' @ str_int (current_exp + LEVEL_UP_EXP)) out3
                  in (Inr (total_damage, enemy_defeated), st2, out4)
         else (Inr (total_damage, enemy_defeated), st1, out1))"


subsection \<open>Boss, Sidekick and Villain\<close>

record boss = character +
  special_ability :: "string option"

record sidekick = character +
  support_ability :: "string option"

record villain = character +
  evil_deed :: "string option"

text \<open>The subclasses call \<^verbatim>\<open>Character.__init__\<close> with the default inventory size 10.\<close>

definition Boss ::
  "string \<Rightarrow> int \<Rightarrow> int \<Rightarrow> string option \<Rightarrow> string option \<Rightarrow> int \<Rightarrow> int \<Rightarrow> int \<Rightarrow> boss" where
  "Boss nm h d ability weapon_name weapon_damage lvl ex =
     character.extend (Character nm h d weapon_name weapon_damage lvl ex 10) (boss.fields ability)"

definition Sidekick ::
  "string \<Rightarrow> int \<Rightarrow> int \<Rightarrow> string option \<Rightarrow> int \<Rightarrow> string option \<Rightarrow> int \<Rightarrow> int \<Rightarrow> sidekick" where
  "Sidekick nm h d weapon_name weapon_damage ability lvl ex =
     character.extend (Character nm h d weapon_name weapon_damage lvl ex 10) (sidekick.fields ability)"

definition Villain ::
  "string \<Rightarrow> int \<Rightarrow> int \<Rightarrow> string option \<Rightarrow> string option \<Rightarrow> int \<Rightarrow> int \<Rightarrow> int \<Rightarrow> villain" where
  "Villain nm h d deed weapon_name weapon_damage lvl ex =
     character.extend (Character nm h d weapon_name weapon_damage lvl ex 10) (villain.fields deed)"

text \<open>
  The three accessors test the attribute with \<^verbatim>\<open>if self.special_ability:\<close>, which is false
  for \<^verbatim>\<open>None\<close> and for the empty string. They assign nothing, so each is a function of the
  object alone.
\<close>

definition use_special_ability :: "boss \<Rightarrow> string" where
  "use_special_ability b =
     (case special_ability b of
        None \<Rightarrow> name b @ '' has no special ability.''
      | Some a \<Rightarrow>
          if a \<noteq> [] then name b @ '' uses '' @ a @ ''!''
          else name b @ '' has no special ability.'')"

definition use_support_ability :: "sidekick \<Rightarrow> string" where
  "use_support_ability s =
     (case support_ability s of
        None \<Rightarrow> name s @ '' has no support ability.''
      | Some a \<Rightarrow>
          if a \<noteq> [] then name s @ '' uses '' @ a @ ''!''
          else name s @ '' has no support ability.'')"

definition commit_evil_deed :: "villain \<Rightarrow> string" where
  "commit_evil_deed v =
     (case evil_deed v of
        None \<Rightarrow> name v @ '' has no evil deed.''
      | Some a \<Rightarrow>
          if a \<noteq> [] then name v @ '' commits '' @ a @ ''!''
          else name v @ '' has no evil deed.'')"


section \<open>Sequences of calls\<close>

text \<open>A driver's calls on one inventory, applied in order.\<close>

datatype inv_op =
  Add_item item_ref
| Remove_item item_ref
| Equip_weapon item_ref
| Equip_armor item_ref
| Use_consumable item_ref

fun apply_inv_op :: "inv_op \<Rightarrow> inventory \<Rightarrow> inventory" where
  "apply_inv_op (Add_item it) iv = snd (add_item it iv)"
| "apply_inv_op (Remove_item it) iv = snd (remove_item it iv)"
| "apply_inv_op (Equip_weapon it) iv = snd (equip_weapon it iv)"
| "apply_inv_op (Equip_armor it) iv = snd (equip_armor it iv)"
| "apply_inv_op (Use_consumable it) iv = snd (use_consumable it iv)"

fun apply_inv_ops :: "inv_op list \<Rightarrow> inventory \<Rightarrow> inventory" where
  "apply_inv_ops [] iv = iv"
| "apply_inv_ops (x # xs) iv = apply_inv_ops xs (apply_inv_op x iv)"

text \<open>Each equipped slot is empty or refers to a held item.\<close>

definition equipped_held :: "inventory \<Rightarrow> bool" where
  "equipped_held iv =
     ((case equipped_weapon iv of None \<Rightarrow> True | Some w \<Rightarrow> w \<in> set (items iv))
      \<and> (case equipped_armor iv of None \<Rightarrow> True | Some a \<Rightarrow> a \<in> set (items iv)))"

text \<open>The call takes away the last held copy of an item that sits in an equipped slot.\<close>

fun drops_equipped :: "inv_op \<Rightarrow> inventory \<Rightarrow> bool" where
  "drops_equipped (Remove_item it) iv =
     ((equipped_weapon iv = Some it \<or> equipped_armor iv = Some it)
      \<and> it \<notin> set (remove1 it (items iv)))"
| "drops_equipped (Use_consumable it) iv =
     ((equipped_weapon iv = Some it \<or> equipped_armor iv = Some it)
      \<and> it \<notin> set (remove1 it (items iv)))"
| "drops_equipped _ iv = False"

fun never_drops_equipped :: "inv_op list \<Rightarrow> inventory \<Rightarrow> bool" where
  "never_drops_equipped [] iv = True"
| "never_drops_equipped (x # xs) iv =
     (\<not> drops_equipped x iv \<and> never_drops_equipped xs (apply_inv_op x iv))"





text \<open>The value that \<^verbatim>\<open>attack\<close> computes first, its local variable \<^verbatim>\<open>total_damage\<close>.\<close>

definition total_damage :: "'a character_scheme \<Rightarrow> int" where
  "total_damage c = damage c + (case weapon c of None \<Rightarrow> 0 | Some w \<Rightarrow> weapon.damage w)"

text \<open>The three lines that one pass of the level-up loop logs, for the proofs below.\<close>

definition level_up_log :: "game_logger option \<Rightarrow> 'a character_scheme \<Rightarrow> console \<Rightarrow> console" where
  "level_up_log logger c out =
     log_opt logger (''Remaining experience: '' @ str_int (experience c))
       (log_opt logger (''New stats: Health='' @ str_int (get_health c)
                        @ '', Damage='' @ str_int (damage c))
          (log_opt logger (name c @ '' leveled up to level '' @ str_int (level c) @ ''!'') out))"


section \<open>Experience and levelling\<close>

lemmas grow_defs =
  int_mul_EXP_MULTIPLIER_def scale_nat_def round53_def round_half_even_def
  bit_length.simps EXP_MULTIPLIER_m_def Let_def

lemma grow_100: "int_mul_EXP_MULTIPLIER 100 = Inr 120"
  by (simp add: grow_defs)

lemma grow_120: "int_mul_EXP_MULTIPLIER 120 = Inr 144"
  by (simp add: grow_defs)

lemma grow_10: "int_mul_EXP_MULTIPLIER 10 = Inr 12"
  by (simp add: grow_defs)

lemma grow_12: "int_mul_EXP_MULTIPLIER 12 = Inr 14"
  by (simp add: grow_defs)

text \<open>
  C1. A character with level 1, health 100, damage 10 and experience 0 that gains 250
  experience points is told that it levelled up, and ends with level 3, experience 50,
  health 144 and damage 14; nothing else of the character changes. This holds with and
  without a logger.
\<close>

theorem gain_experience_250:
  "fst (gain_experience 250 logger
          (c\<lparr>health := 100, damage := 10, level := 1, experience := 0\<rparr>) out) = Inr True
   \<and> fst (snd (gain_experience 250 logger
          (c\<lparr>health := 100, damage := 10, level := 1, experience := 0\<rparr>) out))
       = c\<lparr>health := 144, damage := 14, level := 3, experience := 50\<rparr>"
  by (simp add: gain_experience_def level_up_loop.simps LEVEL_UP_EXP_def Let_def
        grow_100 grow_120 grow_10 grow_12)

text \<open>
  C4. A negative amount is rejected: \<^verbatim>\<open>gain_experience\<close> returns \<^verbatim>\<open>False\<close> and the character
  is exactly as before (so experience, level, health and damage are unchanged); without a
  logger nothing is printed either.
\<close>

theorem gain_experience_negative:
  "amount < 0 \<Longrightarrow>
     fst (gain_experience amount logger c out) = Inr False
     \<and> fst (snd (gain_experience amount logger c out)) = c
     \<and> snd (snd (gain_experience amount None c out)) = out"
  by (simp add: gain_experience_def log_opt_def)

theorem gain_experience_negative_witness:
  "(-10 :: int) < 0
   \<and> fst (gain_experience (-10) None (Character ''Hero'' 100 10 None 0 1 0 10) []) = Inr False
   \<and> fst (snd (gain_experience (-10) None (Character ''Hero'' 100 10 None 0 1 0 10) []))
       = Character ''Hero'' 100 10 None 0 1 0 10"
  using gain_experience_negative [of "-10" None "Character ''Hero'' 100 10 None 0 1 0 10" "[]"]
  by simp

section \<open>Ability accessors\<close>

lemma Boss_fields:
  "special_ability (Boss nm h d ab wn wd lvl ex) = ab"
  "name (Boss nm h d ab wn wd lvl ex) = nm"
  by (simp_all add: Boss_def Character_def character.extend_def boss.fields_def)

lemma Sidekick_fields:
  "support_ability (Sidekick nm h d wn wd ab lvl ex) = ab"
  "name (Sidekick nm h d wn wd ab lvl ex) = nm"
  by (simp_all add: Sidekick_def Character_def character.extend_def sidekick.fields_def)

lemma Villain_fields:
  "evil_deed (Villain nm h d ab wn wd lvl ex) = ab"
  "name (Villain nm h d ab wn wd lvl ex) = nm"
  by (simp_all add: Villain_def Character_def character.extend_def villain.fields_def)

text \<open>
  C10, as the code has it. Each accessor returns a string and assigns nothing. When the
  attribute is a non-empty string, \<^verbatim>\<open>use_special_ability\<close> and \<^verbatim>\<open>use_support_ability\<close> return
  \<^verbatim>\<open>"{name} uses {ability}!"\<close> and \<^verbatim>\<open>commit_evil_deed\<close> returns \<^verbatim>\<open>"{name} commits {evil_deed}!"\<close>;
  when the attribute is \<^verbatim>\<open>None\<close> or the empty string, they return the
  \<^verbatim>\<open>"{name} has no ..."\<close> message.
\<close>

theorem ability_accessors:
  "(special_ability b = Some a \<and> a \<noteq> [] \<longrightarrow>
      use_special_ability b = name b @ '' uses '' @ a @ ''!'')
   \<and> (special_ability b = None \<or> special_ability b = Some [] \<longrightarrow>
      use_special_ability b = name b @ '' has no special ability.'')
   \<and> (support_ability s = Some a \<and> a \<noteq> [] \<longrightarrow>
      use_support_ability s = name s @ '' uses '' @ a @ ''!'')
   \<and> (support_ability s = None \<or> support_ability s = Some [] \<longrightarrow>
      use_support_ability s = name s @ '' has no support ability.'')
   \<and> (evil_deed v = Some a \<and> a \<noteq> [] \<longrightarrow>
      commit_evil_deed v = name v @ '' commits '' @ a @ ''!'')
   \<and> (evil_deed v = None \<or> evil_deed v = Some [] \<longrightarrow>
      commit_evil_deed v = name v @ '' has no evil deed.'')"
  by (auto simp: use_special_ability_def use_support_ability_def commit_evil_deed_def)

theorem ability_accessors_witness:
  "use_special_ability (Boss ''Test Boss'' 150 20 (Some ''Fireball'') None 0 1 0)
     = ''Test Boss uses Fireball!''
   \<and> use_special_ability (Boss ''Test Boss'' 150 20 None None 0 1 0)
     = ''Test Boss has no special ability.''
   \<and> use_support_ability (Sidekick ''Test Sidekick'' 80 5 None 0 (Some ''Heal'') 1 0)
     = ''Test Sidekick uses Heal!''
   \<and> use_support_ability (Sidekick ''Test Sidekick'' 80 5 None 0 (Some []) 1 0)
     = ''Test Sidekick has no support ability.''
   \<and> commit_evil_deed (Villain ''Test Villain'' 120 15 (Some ''Steal'') None 0 1 0)
     = ''Test Villain commits Steal!''
   \<and> commit_evil_deed (Villain ''Test Villain'' 120 15 None None 0 1 0)
     = ''Test Villain has no evil deed.''"
  using
    ability_accessors [of "Boss ''Test Boss'' 150 20 (Some ''Fireball'') None 0 1 0" "''Fireball''"
      "Sidekick ''Test Sidekick'' 80 5 None 0 (Some []) 1 0"
      "Villain ''Test Villain'' 120 15 None None 0 1 0"]
    ability_accessors [of "Boss ''Test Boss'' 150 20 None None 0 1 0" "''Heal''"
      "Sidekick ''Test Sidekick'' 80 5 None 0 (Some ''Heal'') 1 0"
      "Villain ''Test Villain'' 120 15 None None 0 1 0"]
    ability_accessors [of "Boss ''Test Boss'' 150 20 None None 0 1 0" "''Steal''"
      "Sidekick ''Test Sidekick'' 80 5 None 0 (Some []) 1 0"
      "Villain ''Test Villain'' 120 15 (Some ''Steal'') None 0 1 0"]
  by (simp add: Boss_fields Sidekick_fields Villain_fields)

text \<open>
  C10 as stated fails for the empty string: a boss whose \<^verbatim>\<open>special_ability\<close> is \<^verbatim>\<open>""\<close> (not
  \<^verbatim>\<open>None\<close>) gets the "has no special ability" message, not \<^verbatim>\<open>"Ogre uses !"\<close>.
\<close>

theorem empty_ability_counterexample:
  "special_ability (Boss ''Ogre'' 150 20 (Some []) None 0 1 0) = Some []
   \<and> use_special_ability (Boss ''Ogre'' 150 20 (Some []) None 0 1 0)
       = ''Ogre has no special ability.''
   \<and> use_special_ability (Boss ''Ogre'' 150 20 (Some []) None 0 1 0) \<noteq> ''Ogre uses !''"
  by (simp add: use_special_ability_def Boss_fields)


section \<open>Inventory bookkeeping\<close>

lemma still_held_after_remove1:
  "y \<in> set xs \<Longrightarrow> x \<in> set (remove1 x xs) \<Longrightarrow> y \<in> set (remove1 x xs)"
  by (cases "y = x") simp_all

lemma apply_inv_op_equipped_held:
  "equipped_held iv \<Longrightarrow> \<not> drops_equipped x iv \<Longrightarrow> equipped_held (apply_inv_op x iv)"
  by (cases x)
     (auto simp: equipped_held_def add_item_def remove_item_def equip_weapon_def
        equip_armor_def use_consumable_def split: option.splits
        intro: still_held_after_remove1)

text \<open>
  C7, as the code has it. Starting from an inventory whose equipped slots are empty or
  refer to held items, every sequence of \<^verbatim>\<open>add_item\<close>, \<^verbatim>\<open>remove_item\<close>, \<^verbatim>\<open>equip_weapon\<close>,
  \<^verbatim>\<open>equip_armor\<close> and \<^verbatim>\<open>use_consumable\<close> calls in which no \<^verbatim>\<open>remove_item\<close> or \<^verbatim>\<open>use_consumable\<close>
  takes away the last held copy of an equipped item leaves both slots empty or referring
  to held items.
\<close>

theorem equipped_held_preserved:
  "equipped_held iv \<Longrightarrow> never_drops_equipped ops iv \<Longrightarrow> equipped_held (apply_inv_ops ops iv)"
proof (induction ops arbitrary: iv)
  case Nil
  then show ?case by simp
next
  case (Cons x xs)
  from Cons.prems have "equipped_held (apply_inv_op x iv)"
    by (simp add: apply_inv_op_equipped_held)
  with Cons show ?case by simp
qed

theorem equipped_held_preserved_witness:
  "equipped_held (Inventory 10)
   \<and> never_drops_equipped
        [Add_item 1, Add_item 2, Add_item 1, Equip_weapon 1, Equip_armor 2, Remove_item 1,
         Use_consumable 3] (Inventory 10)
   \<and> equipped_held (apply_inv_ops
        [Add_item 1, Add_item 2, Add_item 1, Equip_weapon 1, Equip_armor 2, Remove_item 1,
         Use_consumable 3] (Inventory 10))"
proof -
  have a: "equipped_held (Inventory 10)"
    by (simp add: equipped_held_def Inventory_def)
  have b: "never_drops_equipped
        [Add_item 1, Add_item 2, Add_item 1, Equip_weapon 1, Equip_armor 2, Remove_item 1,
         Use_consumable 3] (Inventory 10)"
    by (simp add: Inventory_def add_item_def equip_weapon_def equip_armor_def remove_item_def
          use_consumable_def)
  from a b equipped_held_preserved [OF a b] show ?thesis by simp
qed

text \<open>
  C7 as stated fails: after \<^verbatim>\<open>add_item(w)\<close>, \<^verbatim>\<open>equip_weapon(w)\<close>, \<^verbatim>\<open>remove_item(w)\<close> on a new
  inventory, \<^verbatim>\<open>equipped_weapon\<close> still refers to \<^verbatim>\<open>w\<close> while no item is held.
\<close>

theorem equipped_after_remove_counterexample:
  "equipped_held (Inventory 10)
   \<and> equipped_weapon (apply_inv_ops [Add_item 1, Equip_weapon 1, Remove_item 1] (Inventory 10)) = Some 1
   \<and> items (apply_inv_ops [Add_item 1, Equip_weapon 1, Remove_item 1] (Inventory 10)) = []
   \<and> \<not> equipped_held (apply_inv_ops [Add_item 1, Equip_weapon 1, Remove_item 1] (Inventory 10))"
  by (simp add: equipped_held_def Inventory_def add_item_def equip_weapon_def remove_item_def)


section \<open>Health\<close>

lemma set_health_max: "get_health (set_health h c) = max h 0"
  by (simp add: get_health_def set_health_def)

text \<open>
  C6 at the constructor: \<^verbatim>\<open>Character.__init__\<close> stores the \<^verbatim>\<open>health\<close> argument without the
  clamping of \<^verbatim>\<open>set_health\<close>, so \<^verbatim>\<open>Character("Hero", -5, 10).get_health()\<close> is \<open>-5\<close>.
\<close>

theorem Character_negative_health:
  "get_health (Character ''Hero'' (- 5) 10 None 0 1 0 10) = - 5"
  by (simp add: get_health_def Character_def)

section \<open>One pass of the level-up loop; the logger is an observer\<close>

lemma log_opt_None [simp]: "log_opt None m out = out"
  by (simp add: log_opt_def)

lemma level_up_log_None [simp]: "level_up_log None c out = out"
  by (simp add: level_up_log_def)

lemma level_up_loop_stop:
  "\<not> LEVEL_UP_EXP \<le> experience c \<Longrightarrow> level_up_loop logger b c out = (Inr b, c, out)"
  by (simp add: level_up_loop.simps)

lemma level_up_loop_step:
  "LEVEL_UP_EXP \<le> experience c \<Longrightarrow>
   level_up_loop logger b c out =
     (case int_mul_EXP_MULTIPLIER (health c) of
        Inl e \<Rightarrow> (Inl e, c\<lparr>experience := experience c - LEVEL_UP_EXP, level := level c + 1\<rparr>, out)
      | Inr h \<Rightarrow>
          (case int_mul_EXP_MULTIPLIER (damage c) of
             Inl e \<Rightarrow> (Inl e, c\<lparr>experience := experience c - LEVEL_UP_EXP, level := level c + 1,
                                 health := h\<rparr>, out)
           | Inr d \<Rightarrow>
               level_up_loop logger True
                 (c\<lparr>experience := experience c - LEVEL_UP_EXP, level := level c + 1,
                    health := h, damage := d\<rparr>)
                 (level_up_log logger
                    (c\<lparr>experience := experience c - LEVEL_UP_EXP, level := level c + 1,
                       health := h, damage := d\<rparr>) out)))"
  by (subst level_up_loop.simps) (simp add: Let_def level_up_log_def split: sum.splits)





section \<open>The arithmetic of \<open>int(x * 1.2)\<close>\<close>




















lemma int_mul_nonneg:
  "0 \<le> x \<Longrightarrow> int_mul_EXP_MULTIPLIER x = Inr y \<Longrightarrow> 0 \<le> y"
  by (auto simp: int_mul_EXP_MULTIPLIER_def split: sum.splits)



section \<open>The level-up loop\<close>








lemma gain_experience_loop:
  "0 \<le> amount \<Longrightarrow>
   level_up_loop logger False (c\<lparr>experience := experience c + amount\<rparr>) out = (r, c', out') \<Longrightarrow>
   fst (gain_experience amount logger c out) = r
   \<and> fst (snd (gain_experience amount logger c out)) = c'"
  by (cases r) (simp_all add: gain_experience_def)




section \<open>Invariants of the level-up loop\<close>

lemma level_up_loop_invariant:
  assumes "P c"
    and "\<And>c. P c \<Longrightarrow> P (c\<lparr>experience := experience c - LEVEL_UP_EXP, level := level c + 1\<rparr>)"
    and "\<And>c h. P c \<Longrightarrow> int_mul_EXP_MULTIPLIER (health c) = Inr h \<Longrightarrow> P (c\<lparr>health := h\<rparr>)"
    and "\<And>c d. P c \<Longrightarrow> int_mul_EXP_MULTIPLIER (damage c) = Inr d \<Longrightarrow> P (c\<lparr>damage := d\<rparr>)"
  shows "P (fst (snd (level_up_loop logger b c out)))"
  using assms(1)
proof (induction "nat (experience c)" arbitrary: c b out rule: less_induct)
  case less
  show ?case
  proof (cases "LEVEL_UP_EXP \<le> experience c")
    case False
    with less.prems show ?thesis by (simp add: level_up_loop_stop)
  next
    case True
    then have smaller: "nat (experience c - LEVEL_UP_EXP) < nat (experience c)"
      by (simp add: LEVEL_UP_EXP_def)
    let ?c1 = "c\<lparr>experience := experience c - LEVEL_UP_EXP, level := level c + 1\<rparr>"
    from less.prems have P1: "P ?c1" by (rule assms(2))
    show ?thesis
    proof (cases "int_mul_EXP_MULTIPLIER (health c)")
      case (Inl err)
      with True P1 show ?thesis by (simp add: level_up_loop_step)
    next
      case h: (Inr h)
      with P1 have P2: "P (?c1\<lparr>health := h\<rparr>)" by (intro assms(3)) simp_all
      show ?thesis
      proof (cases "int_mul_EXP_MULTIPLIER (damage c)")
        case (Inl err)
        with True h P2 show ?thesis by (simp add: level_up_loop_step)
      next
        case d: (Inr d)
        with P2 have P3: "P (?c1\<lparr>health := h, damage := d\<rparr>)" by (intro assms(4)) simp_all
        have "P (fst (snd (level_up_loop logger True (?c1\<lparr>health := h, damage := d\<rparr>)
                (level_up_log logger (?c1\<lparr>health := h, damage := d\<rparr>) out))))"
          using smaller P3 by (intro less.hyps) simp_all
        with True h d show ?thesis by (simp add: level_up_loop_step)
      qed
    qed
  qed
qed

lemma gain_experience_invariant:
  assumes "P c"
    and "\<And>c x. P c \<Longrightarrow> P (c\<lparr>experience := x\<rparr>)"
    and "\<And>c x. P c \<Longrightarrow> P (c\<lparr>level := x\<rparr>)"
    and "\<And>c h. P c \<Longrightarrow> int_mul_EXP_MULTIPLIER (health c) = Inr h \<Longrightarrow> P (c\<lparr>health := h\<rparr>)"
    and "\<And>c d. P c \<Longrightarrow> int_mul_EXP_MULTIPLIER (damage c) = Inr d \<Longrightarrow> P (c\<lparr>damage := d\<rparr>)"
  shows "P (fst (snd (gain_experience amount logger c out)))"
proof (cases "amount < 0")
  case True
  with assms(1) show ?thesis by (simp add: gain_experience_def)
next
  case False
  let ?c = "c\<lparr>experience := experience c + amount\<rparr>"
  obtain r c' out' where L: "level_up_loop logger False ?c out = (r, c', out')"
    by (cases "level_up_loop logger False ?c out") auto
  from assms(1) have "P ?c" by (rule assms(2))
  then have "P (fst (snd (level_up_loop logger False ?c out)))"
  proof (rule level_up_loop_invariant)
    fix c assume "P c"
    then have "P (c\<lparr>experience := experience c - LEVEL_UP_EXP\<rparr>)" by (rule assms(2))
    then have "P (c\<lparr>experience := experience c - LEVEL_UP_EXP\<rparr>\<lparr>level := level c + 1\<rparr>)"
      by (rule assms(3))
    then show "P (c\<lparr>experience := experience c - LEVEL_UP_EXP, level := level c + 1\<rparr>)"
      by simp
  qed (fact assms(4), fact assms(5))
  with False L gain_experience_loop [OF _ L] show ?thesis by simp
qed


lemma gain_experience_health_nonneg:
  "0 \<le> health c \<Longrightarrow> 0 \<le> health (fst (snd (gain_experience amount logger c out)))"
  by (rule gain_experience_invariant [where P = "\<lambda>c. 0 \<le> health c"])
     (auto dest: int_mul_nonneg)


section \<open>Combat\<close>









section \<open>Combat and the inventory\<close>

lemma level_up_log_inventory [simp]:
  "level_up_log logger (c\<lparr>inventory := iv\<rparr>) out = level_up_log logger c out"
  by (simp add: level_up_log_def get_health_def)









text \<open>An attack after \<^verbatim>\<open>add_item\<close> and \<^verbatim>\<open>equip_weapon\<close> on the inventory still deals 10 + 5.\<close>

lemma attack_example:
  "fst (attack 0 1 None ''12:00:00''
     ((\<lambda>r. Character ''Enemy'' 100 10 None 0 1 0 10)
        (0 := (Character ''Hero'' 100 10 (Some ''Sword'') 5 1 0 10)
                \<lparr>inventory := apply_inv_ops [Add_item 7, Equip_weapon 7]
                                (inventory (Character ''Hero'' 100 10 (Some ''Sword'') 5 1 0 10))\<rparr>))
     []) = Inr (15, False)"
  by (simp add: attack_def Character_def Let_def get_health_def set_health_def)

end
